theory Spec2Isabelle
  imports Complex_Main "HOL-Library.Product_Lexorder"
begin

section \<open>The dashboard component (src/components/Dashboard.tsx)\<close>

text \<open>
  The component keeps four pieces of React state (\<open>state\<close>, \<open>progress\<close>, \<open>error\<close>,
  \<open>processingData\<close>), changes them in \<open>handleUploadComplete\<close> and \<open>handleStartOver\<close>, and
  renders one of four blocks of main content from them.

  JavaScript strings are modelled as \<open>string\<close>, holding the UTF-8 bytes of the text: the
  component only ever compares strings with \<open>===\<close> and passes them on, and two strings are
  \<open>===\<close> exactly when their encodings are the same byte list. A JavaScript \<open>number\<close> whose
  value the component never computes with is the type parameter \<open>'n\<close>; \<open>progress\<close> only
  ever holds \<open>0\<close>, \<open>100\<close> and results of \<open>Math.min(prev + 5, 90)\<close>, small integers that a
  double represents exactly, and is an \<open>int\<close>. The \<open>Transaction\<close> type is imported from
  \<open>@/lib/api\<close> and is the type parameter \<open>'tx\<close>.
\<close>

subsection \<open>Data\<close>

datatype ProcessingState = Idle | Uploading | Processing | Completed | Error

record DateRange =
  min_date :: string
  max_date :: string

text \<open>
  The fields of \<open>ProcessingData\<close> that the handler does not supply itself; they come from
  the spread \<open>...result\<close>.
\<close>

record ('n, 'tx) ProcessResult =
  format_type :: string
  total_amount :: 'n
  transaction_count :: 'n
  totals :: "(string \<times> 'n) list"
  date_range :: DateRange
  transactions :: "'tx list"

record ('n, 'tx) ProcessingData = "('n, 'tx) ProcessResult" +
  sessionId :: string
  filename :: string

text \<open>
  The value \<open>apiClient.processPdf\<close> resolves to (its type is declared in \<open>@/lib/api\<close>).
  Besides the six fields above it may carry keys of its own named \<open>sessionId\<close> and
  \<open>filename\<close>: \<open>own_sessionId\<close> and \<open>own_filename\<close> are those keys, \<open>None\<close> when the
  result has no such key. Other keys of the result are never read by the component and
  are left out.
\<close>

record ('n, 'tx) ServerResult = "('n, 'tx) ProcessResult" +
  own_sessionId :: "string option"
  own_filename :: "string option"

record ('n, 'tx) Dashboard =
  state :: ProcessingState
  progress :: int
  error :: string
  processingData :: "('n, 'tx) ProcessingData option"

text \<open>The four \<open>useState\<close> initial values.\<close>

definition initial :: "('n, 'tx) Dashboard" where
  "initial = \<lparr>state = Idle, progress = 0, error = [], processingData = None\<rparr>"

subsection \<open>String literals of the component\<close>

text \<open>The Cyrillic word for "Original" shown for the \<open>original\<close> format, in UTF-8.\<close>

definition label_original :: string where
  "label_original =
     [CHR 0xD0, CHR 0x9E, CHR 0xD1, CHR 0x80, CHR 0xD0, CHR 0xB8, CHR 0xD0, CHR 0xB3,
      CHR 0xD0, CHR 0xB8, CHR 0xD0, CHR 0xBD, CHR 0xD0, CHR 0xB0, CHR 0xD0, CHR 0xBB,
      CHR 0xD1, CHR 0x8C, CHR 0xD0, CHR 0xBD, CHR 0xD1, CHR 0x8B, CHR 0xD0, CHR 0xB9]"

definition label_rbc :: string where
  "label_rbc = ''RBC''"

text \<open>
  The fallback text of the \<open>catch\<close> block ("file processing error" in Russian), in UTF-8.
\<close>

definition fallback_error_message :: string where
  "fallback_error_message =
     [CHR 0xD0, CHR 0x9E, CHR 0xD1, CHR 0x88, CHR 0xD0, CHR 0xB8, CHR 0xD0, CHR 0xB1,
      CHR 0xD0, CHR 0xBA, CHR 0xD0, CHR 0xB0, CHR 0x20, CHR 0xD0, CHR 0xBE, CHR 0xD0,
      CHR 0xB1, CHR 0xD1, CHR 0x80, CHR 0xD0, CHR 0xB0, CHR 0xD0, CHR 0xB1, CHR 0xD0,
      CHR 0xBE, CHR 0xD1, CHR 0x82, CHR 0xD0, CHR 0xBA, CHR 0xD0, CHR 0xB8, CHR 0x20,
      CHR 0xD1, CHR 0x84, CHR 0xD0, CHR 0xB0, CHR 0xD0, CHR 0xB9, CHR 0xD0, CHR 0xBB,
      CHR 0xD0, CHR 0xB0]"

subsection \<open>Rendering the completed view\<close>

text \<open>
  Reading a property of \<open>null\<close> throws a \<open>TypeError\<close> in JavaScript; \<open>read_prop\<close> makes
  that a value, so that a render that dereferences a missing result is visible in the
  model.
\<close>

datatype js_error = TypeError

definition read_prop :: "'a option \<Rightarrow> ('a \<Rightarrow> 'b) \<Rightarrow> js_error + 'b" where
  "read_prop obj field = (case obj of None \<Rightarrow> Inl TypeError | Some v \<Rightarrow> Inr (field v))"

definition bind_js :: "js_error + 'a \<Rightarrow> ('a \<Rightarrow> js_error + 'b) \<Rightarrow> js_error + 'b" where
  "bind_js m f = (case m of Inl e \<Rightarrow> Inl e | Inr v \<Rightarrow> f v)"

text \<open>
  The ternary of the success message:
  \<^verbatim>\<open>processingData.format_type === 'original' ? <Original> : 'RBC'\<close>.
\<close>

definition format_label :: "string \<Rightarrow> string" where
  "format_label ft = (if ft = ''original'' then label_original else label_rbc)"

text \<open>
  What the completed block shows: the count and the format name of the success message,
  and the two props handed to \<open>Results\<close>.
\<close>

record ('n, 'tx) CompletedView =
  found_count :: 'n
  format_name :: string
  results_sessionId :: string
  results_data :: "('n, 'tx) ProcessingData"

text \<open>
  The block \<^verbatim>\<open>{state === 'completed' && processingData && ( ... )}\<close>. The guard
  short-circuits: the body, with its four reads of \<open>processingData\<close>, is evaluated only
  when both operands are truthy, and nothing is rendered (\<open>Inr None\<close>) otherwise. An
  object is always truthy and \<open>null\<close> never is.
\<close>

definition completed_block ::
  "('n, 'tx) Dashboard \<Rightarrow> js_error + ('n, 'tx) CompletedView option" where
  "completed_block d =
     (if state d = Completed \<and> processingData d \<noteq> None then
        bind_js (read_prop (processingData d) transaction_count) (\<lambda>cnt.
        bind_js (read_prop (processingData d) format_type) (\<lambda>ft.
        bind_js (read_prop (processingData d) sessionId) (\<lambda>sid.
        bind_js (read_prop (processingData d) id) (\<lambda>dat.
          Inr (Some \<lparr>found_count = cnt, format_name = format_label ft,
                     results_sessionId = sid, results_data = dat\<rparr>)))))
      else Inr None)"

subsection \<open>The handlers\<close>

text \<open>
  A value caught by \<open>catch (err)\<close>: JavaScript can throw anything. \<open>err instanceof Error\<close>
  holds for \<open>ErrorInstance m\<close>, whose \<open>message\<close> property is \<open>m\<close>, and for nothing else.
\<close>

datatype thrown = ErrorInstance string | NotAnError

text \<open>
  \<open>handleUploadComplete\<close> is an \<open>async\<close> function: it runs up to the \<open>await\<close>, and
  resumes either after it (the promise resolved) or in the \<open>catch\<close> block (it was
  rejected). Each part is one function on the React state.
\<close>

definition upload_started :: "('n, 'tx) Dashboard \<Rightarrow> ('n, 'tx) Dashboard" where
  "upload_started d = d\<lparr>state := Processing, progress := 0, error := []\<rparr>"

text \<open>The interval's callback: \<^verbatim>\<open>setProgress(prev => Math.min(prev + 5, 90))\<close>.\<close>

definition progress_tick :: "('n, 'tx) Dashboard \<Rightarrow> ('n, 'tx) Dashboard" where
  "progress_tick d = d\<lparr>progress := min (progress d + 5) 90\<rparr>"

text \<open>
  After the \<open>await\<close>: \<open>setProgress(100)\<close> and
  \<^verbatim>\<open>setProcessingData({sessionId, filename, ...result})\<close>. The spread comes last in
  the object literal, so a \<open>sessionId\<close> or \<open>filename\<close> key of the result replaces the
  handler's own argument.
\<close>

definition process_resolved ::
  "string \<Rightarrow> string \<Rightarrow> ('n, 'tx) ServerResult \<Rightarrow> ('n, 'tx) Dashboard \<Rightarrow> ('n, 'tx) Dashboard" where
  "process_resolved sid fname r d =
     d\<lparr>progress := 100,
       processingData := Some
         \<lparr>format_type = format_type r, total_amount = total_amount r,
          transaction_count = transaction_count r, totals = totals r,
          date_range = date_range r, transactions = transactions r,
          sessionId = (case own_sessionId r of None \<Rightarrow> sid | Some s \<Rightarrow> s),
          filename = (case own_filename r of None \<Rightarrow> fname | Some f \<Rightarrow> f)\<rparr>\<rparr>"

text \<open>The callback of \<open>setTimeout(..., 500)\<close>.\<close>

definition completed_timeout :: "('n, 'tx) Dashboard \<Rightarrow> ('n, 'tx) Dashboard" where
  "completed_timeout d = d\<lparr>state := Completed\<rparr>"

text \<open>
  The \<open>catch\<close> block:
  \<^verbatim>\<open>setError(err instanceof Error ? err.message : <fallback>)\<close>.
\<close>

definition shown_error :: "thrown \<Rightarrow> string" where
  "shown_error err = (case err of ErrorInstance m \<Rightarrow> m | NotAnError \<Rightarrow> fallback_error_message)"

definition process_rejected :: "thrown \<Rightarrow> ('n, 'tx) Dashboard \<Rightarrow> ('n, 'tx) Dashboard" where
  "process_rejected err d = d\<lparr>state := Error, error := shown_error err, progress := 0\<rparr>"

definition handleStartOver :: "('n, 'tx) Dashboard \<Rightarrow> ('n, 'tx) Dashboard" where
  "handleStartOver d = d\<lparr>state := Idle, progress := 0, error := [], processingData := None\<rparr>"

subsection \<open>The component and its environment\<close>

text \<open>
  Besides the React state, a run of the component has the outstanding \<open>processPdf\<close> calls
  (each with the \<open>sessionId\<close> and \<open>filename\<close> its continuation closes over), the number of
  live \<open>setInterval\<close> timers and the number of scheduled \<open>setTimeout\<close> callbacks. Time is
  not modelled: a timer that is live may fire at any moment.
\<close>

record ('n, 'tx) World =
  dashboard :: "('n, 'tx) Dashboard"
  calls :: "(string \<times> string) list"
  intervals :: nat
  timeouts :: nat

definition initial_world :: "('n, 'tx) World" where
  "initial_world = \<lparr>dashboard = initial, calls = [], intervals = 0, timeouts = 0\<rparr>"

text \<open>
  What can happen to the component. \<open>UploadComplete sid fname\<close> is a call of
  \<open>handleUploadComplete\<close>, \<open>StartOver\<close> a call of \<open>handleStartOver\<close>; \<open>Resolve k r\<close> and
  \<open>Reject k err\<close> settle the \<open>k\<close>-th outstanding \<open>processPdf\<close> call.
\<close>

datatype ('n, 'tx) event =
    UploadComplete string string
  | Tick
  | Resolve nat "('n, 'tx) ServerResult"
  | Reject nat thrown
  | Timeout
  | StartOver

text \<open>
  One event; \<open>None\<close> when it cannot happen in this state.
  \<^item> Neither handler looks at the state before it runs, so \<open>UploadComplete\<close> and
    \<open>StartOver\<close> can happen in every state: \<open>handleUploadComplete\<close> is handed to
    \<open>FileUpload\<close>, which may call it whenever it likes, also while an earlier call is
    still outstanding.
  \<^item> \<open>Tick\<close> needs a live interval, \<open>Timeout\<close> a scheduled timeout, and \<open>Resolve k\<close> and
    \<open>Reject k\<close> a \<open>k\<close>-th outstanding call.
  \<^item> A resolved call clears its own interval and schedules the timeout. The \<open>catch\<close>
    block does not call \<open>clearInterval\<close> (\<open>progressInterval\<close> is local to the \<open>try\<close>
    block), so the interval of a rejected call stays live.
\<close>

fun step :: "('n, 'tx) event \<Rightarrow> ('n, 'tx) World \<Rightarrow> ('n, 'tx) World option" where
  "step (UploadComplete sid fname) w =
     Some (w\<lparr>dashboard := upload_started (dashboard w),
              calls := calls w @ [(sid, fname)],
              intervals := Suc (intervals w)\<rparr>)"
| "step Tick w =
     (if 0 < intervals w
      then Some (w\<lparr>dashboard := progress_tick (dashboard w)\<rparr>)
      else None)"
| "step (Resolve k r) w =
     (if k < length (calls w)
      then Some (w\<lparr>dashboard :=
                     process_resolved (fst (calls w ! k)) (snd (calls w ! k)) r (dashboard w),
                   calls := take k (calls w) @ drop (Suc k) (calls w),
                   intervals := intervals w - 1,
                   timeouts := Suc (timeouts w)\<rparr>)
      else None)"
| "step (Reject k err) w =
     (if k < length (calls w)
      then Some (w\<lparr>dashboard := process_rejected err (dashboard w),
                   calls := take k (calls w) @ drop (Suc k) (calls w)\<rparr>)
      else None)"
| "step Timeout w =
     (if 0 < timeouts w
      then Some (w\<lparr>dashboard := completed_timeout (dashboard w),
                   timeouts := timeouts w - 1\<rparr>)
      else None)"
| "step StartOver w = Some (w\<lparr>dashboard := handleStartOver (dashboard w)\<rparr>)"

fun run :: "('n, 'tx) event list \<Rightarrow> ('n, 'tx) World \<Rightarrow> ('n, 'tx) World option" where
  "run [] w = Some w"
| "run (e # es) w = (case step e w of None \<Rightarrow> None | Some w' \<Rightarrow> run es w')"





section \<open>The aggregator behind \<open>processPdf\<close>\<close>

text \<open>
  The server side that computes the result (\<open>api/index.py\<close>, \<open>api/unified_parser.py\<close>) is
  not among the sources; the dashboard only receives what it returns. The definitions of
  this section follow the specification's data model and its contract for the Aggregator.
\<close>

text \<open>
  Modelled from the spec: a calendar date with no time component, as year, month and day.
  Dates are compared lexicographically, which is the calendar's order.
\<close>

type_synonym calendar_date = "nat \<times> nat \<times> nat"

text \<open>
  Modelled from the spec: the canonical transaction record; the amount is a signed exact
  decimal quantity (every decimal is a rational number, and \<open>rat\<close> arithmetic is exact).
\<close>

record Transaction =
  date :: calendar_date
  description :: string
  amount :: rat
  category :: string

text \<open>
  Modelled from the spec: the processing result. \<open>res_date_range\<close> is the minimum and the
  maximum transaction date, or absent; \<open>res_totals\<close> maps a category label to a summed
  amount, one entry per key.
\<close>

record ProcessingResult =
  res_format_type :: string
  res_total_amount :: rat
  res_transaction_count :: nat
  res_totals :: "(string \<times> rat) list"
  res_date_range :: "(calendar_date \<times> calendar_date) option"
  res_transactions :: "Transaction list"

text \<open>
  Modelled from the spec: the summed amount of all transactions in one category.
\<close>

definition category_total :: "Transaction list \<Rightarrow> string \<Rightarrow> rat" where
  "category_total ts c = sum_list (map amount (filter (\<lambda>t. category t = c) ts))"

text \<open>
  Modelled from the spec: the totals mapping, whose keys are exactly the distinct
  category labels present.
\<close>

definition category_totals :: "Transaction list \<Rightarrow> (string \<times> rat) list" where
  "category_totals ts = map (\<lambda>c. (c, category_total ts c)) (remdups (map category ts))"

text \<open>
  Modelled from the spec: the minimum and maximum transaction date, absent if there are
  no transactions.
\<close>

definition date_span :: "Transaction list \<Rightarrow> (calendar_date \<times> calendar_date) option" where
  "date_span ts =
     (if ts = [] then None
      else Some (Min (set (map date ts)), Max (set (map date ts))))"

text \<open>
  Modelled from the spec: the Aggregator, which reduces the canonical transaction
  sequence to the statistics of the processing result; the format tag comes from the
  detector and the transactions are kept in document order.
\<close>

definition Aggregator :: "string \<Rightarrow> Transaction list \<Rightarrow> ProcessingResult" where
  "Aggregator tag ts =
     \<lparr>res_format_type = tag,
      res_total_amount = sum_list (map amount ts),
      res_transaction_count = length ts,
      res_totals = category_totals ts,
      res_date_range = date_span ts,
      res_transactions = ts\<rparr>"

text \<open>
  The specification's concrete scenario: two grocery debits and one salary credit of
  January 2024.
\<close>

definition scenario :: "Transaction list" where
  "scenario =
     [\<lparr>date = (2024, 1, 5), description = ''Grocery'', amount = -120.50,
       category = ''Grocery''\<rparr>,
      \<lparr>date = (2024, 1, 10), description = ''Salary'', amount = 2000.00,
       category = ''Salary''\<rparr>,
      \<lparr>date = (2024, 1, 15), description = ''Grocery'', amount = -45.25,
       category = ''Grocery''\<rparr>]"

section \<open>Properties of the dashboard\<close>

subsection \<open>Rendering\<close>

text \<open>Without the guard, a read of a missing result is the \<open>TypeError\<close>.\<close>

lemma read_prop_null: "read_prop None field = Inl TypeError"
  by (simp add: read_prop_def)

lemma label_original_not_rbc: "label_original \<noteq> label_rbc"
  by (simp add: label_original_def label_rbc_def)

lemma completed_block_Some:
  "state d = Completed \<Longrightarrow> processingData d = Some p \<Longrightarrow>
   completed_block d =
     Inr (Some \<lparr>found_count = transaction_count p, format_name = format_label (format_type p),
                results_sessionId = sessionId p, results_data = p\<rparr>)"
  by (simp add: completed_block_def read_prop_def bind_js_def)

lemma completed_block_None:
  "state d \<noteq> Completed \<or> processingData d = None \<Longrightarrow> completed_block d = Inr None"
  by (auto simp: completed_block_def)

subsection \<open>The fields after each handler\<close>





lemma process_rejected_fields:
  "state (process_rejected err d) = Error" "progress (process_rejected err d) = 0"
  "error (process_rejected err d) = shown_error err"
  "processingData (process_rejected err d) = processingData d"
  by (simp_all add: process_rejected_def)


subsection \<open>The invariant holds in every reachable state\<close>







subsection \<open>Runs whose calls do not overlap\<close>




subsection \<open>Progress while a call is outstanding\<close>








text \<open>
  The interval of a rejected call is never cleared. After a failed run and a successful
  second one it is still live, and its next tick takes the progress from 100 back to 90
  before the timeout switches to the completed view.
\<close>

lemma leaked_interval_after_failure:
  "map_option (\<lambda>w. (state (dashboard w), progress (dashboard w), intervals w))
     (run [UploadComplete ''s1'' ''a.pdf'', Reject 0 NotAnError, StartOver,
           UploadComplete ''s2'' ''b.pdf'',
           Resolve 0 \<lparr>format_type = ''original'', total_amount = 0 :: int,
                       transaction_count = 0, totals = [],
                       date_range = \<lparr>min_date = [], max_date = []\<rparr>,
                       transactions = [] :: unit list,
                       own_sessionId = None, own_filename = None\<rparr>,
           Tick]
        initial_world) = Some (Processing, 90, 1)"
  by (simp add: initial_world_def initial_def upload_started_def process_rejected_def
      handleStartOver_def process_resolved_def progress_tick_def)

subsection \<open>Failure of the process call\<close>

text \<open>
  The \<open>catch\<close> block puts the component in the \<open>error\<close> state with the progress reset
  to 0. It shows an \<open>Error\<close>'s own message unchanged, and its fallback text for any other
  thrown value; what the message of a rejected call holds is decided by the server and
  the API client.
\<close>

lemma catch_block_effect:
  assumes "step (Reject k err) w = Some w'"
  shows "state (dashboard w') = Error \<and> progress (dashboard w') = 0 \<and>
         error (dashboard w') =
           (case err of ErrorInstance m \<Rightarrow> m | NotAnError \<Rightarrow> fallback_error_message)"
  using assms
  by (auto simp: process_rejected_fields shown_error_def split: if_splits)

subsection \<open>The completed view\<close>

text \<open>
  Claim C9. Rendering the completed block never dereferences a missing result: for every
  React state the block evaluates without a \<open>TypeError\<close>, it renders something exactly
  when the state is \<open>completed\<close> and \<open>processingData\<close> is not \<open>null\<close>, and in the
  \<open>completed\<close> state with no result it renders nothing.
\<close>

theorem completed_view_needs_data:
  "completed_block d \<noteq> Inl TypeError \<and>
   ((\<exists>v. completed_block d = Inr (Some v)) \<longleftrightarrow>
      state d = Completed \<and> processingData d \<noteq> None) \<and>
   (state d = Completed \<and> processingData d = None \<longrightarrow> completed_block d = Inr None)"
  by (cases "state d = Completed"; cases "processingData d")
     (simp_all add: completed_block_Some completed_block_None)

theorem completed_view_needs_data_witness:
  "completed_block \<lparr>state = Completed, progress = 100, error = [],
      processingData = None :: (int, unit) ProcessingData option\<rparr> = Inr None \<and>
   completed_block \<lparr>state = Completed, progress = 100, error = [],
      processingData = None :: (int, unit) ProcessingData option\<rparr> \<noteq> Inl TypeError"
  using completed_view_needs_data
    [of "\<lparr>state = Completed, progress = 100, error = [],
         processingData = None :: (int, unit) ProcessingData option\<rparr>"]
  by simp

text \<open>
  Claim C10. Whenever the completed block is rendered for a result \<open>p\<close>, the format name
  in the success message is the Cyrillic label for "Original" if \<open>format_type p\<close> is
  exactly \<open>original\<close>, and \<open>RBC\<close> for every other tag; the two labels differ, so the
  message shows one of exactly two names.
\<close>

theorem format_name_two_labels:
  assumes "state d = Completed" and "processingData d = Some p"
  shows "\<exists>v. completed_block d = Inr (Some v) \<and>
           format_name v =
             (if format_type p = ''original'' then label_original else label_rbc) \<and>
           (format_name v = label_original \<or> format_name v = label_rbc) \<and>
           label_original \<noteq> label_rbc"
  using assms
  by (simp add: completed_block_Some format_label_def label_original_not_rbc)

theorem format_name_two_labels_witness:
  "(case completed_block
      \<lparr>state = Completed, progress = 100, error = [],
       processingData = Some
         \<lparr>format_type = ''unknown'', total_amount = 0 :: int, transaction_count = 0,
          totals = [], date_range = \<lparr>min_date = [], max_date = []\<rparr>,
          transactions = [] :: unit list, sessionId = ''s1'', filename = ''statement.pdf''\<rparr>\<rparr>
    of Inr (Some v) \<Rightarrow> format_name v | _ \<Rightarrow> []) = ''RBC'' \<and>
   (case completed_block
      \<lparr>state = Completed, progress = 100, error = [],
       processingData = Some
         \<lparr>format_type = ''original'', total_amount = 0 :: int, transaction_count = 0,
          totals = [], date_range = \<lparr>min_date = [], max_date = []\<rparr>,
          transactions = [] :: unit list, sessionId = ''s1'', filename = ''statement.pdf''\<rparr>\<rparr>
    of Inr (Some v) \<Rightarrow> format_name v | _ \<Rightarrow> []) = label_original"
proof -
  let ?p = "\<lambda>ft. \<lparr>format_type = ft, total_amount = 0 :: int, transaction_count = 0,
          totals = [], date_range = \<lparr>min_date = [], max_date = []\<rparr>,
          transactions = [] :: unit list, sessionId = ''s1'', filename = ''statement.pdf''\<rparr>"
  let ?d = "\<lambda>ft. \<lparr>state = Completed, progress = 100, error = [],
          processingData = Some (?p ft)\<rparr>"
  have unknown: "\<exists>v. completed_block (?d ''unknown'') = Inr (Some v) \<and> format_name v = ''RBC''"
    using format_name_two_labels [of "?d ''unknown''" "?p ''unknown''"]
    by (auto simp: label_rbc_def)
  have original:
    "\<exists>v. completed_block (?d ''original'') = Inr (Some v) \<and> format_name v = label_original"
    using format_name_two_labels [of "?d ''original''" "?p ''original''"]
    by auto
  from unknown original show ?thesis
    by auto
qed

section \<open>Properties of the aggregator\<close>


lemma sum_list_indicator:
  "distinct cs \<Longrightarrow> k \<in> set cs \<Longrightarrow> sum_list (map (\<lambda>c. if k = c then a else 0) cs) = (a :: rat)"
proof (induction cs)
  case Nil
  then show ?case by simp
next
  case (Cons c cs)
  show ?case
  proof (cases "k = c")
    case True
    with Cons.prems have "k \<notin> set cs" by simp
    then have "sum_list (map (\<lambda>c. if k = c then a else 0) cs) = 0"
      by (induction cs) auto
    with True show ?thesis by simp
  next
    case False
    with Cons show ?thesis by simp
  qed
qed

lemma category_total_Cons:
  "category_total (t # ts) c = (if category t = c then amount t else 0) + category_total ts c"
  by (simp add: category_total_def)

lemma sum_category_totals:
  "distinct cs \<Longrightarrow> category ` set ts \<subseteq> set cs \<Longrightarrow>
   sum_list (map (category_total ts) cs) = sum_list (map amount ts)"
proof (induction ts)
  case Nil
  have "sum_list (map (category_total []) cs) = 0"
    by (induction cs) (simp_all add: category_total_def)
  then show ?case by simp
next
  case (Cons t ts)
  have "sum_list (map (category_total (t # ts)) cs) =
        sum_list (map (\<lambda>c. if category t = c then amount t else 0) cs) +
        sum_list (map (category_total ts) cs)"
  proof -
    have "category_total (t # ts) =
          (\<lambda>c. (if category t = c then amount t else 0) + category_total ts c)"
      by (rule ext) (rule category_total_Cons)
    then show ?thesis
      by (simp add: sum_list_addf)
  qed
  also have "sum_list (map (\<lambda>c. if category t = c then amount t else 0) cs) = amount t"
    using Cons.prems by (intro sum_list_indicator) auto
  also have "sum_list (map (category_total ts) cs) = sum_list (map amount ts)"
    using Cons by auto
  finally show ?case by simp
qed

lemma sum_values_category_totals:
  "sum_list (map snd (category_totals ts)) = sum_list (map amount ts)"
proof -
  have "map snd (category_totals ts) = map (category_total ts) (remdups (map category ts))"
    by (simp add: category_totals_def comp_def)
  then show ?thesis
    by (simp add: sum_category_totals)
qed

lemma keys_category_totals:
  "distinct (map fst (category_totals ts))" "set (map fst (category_totals ts)) = category ` set ts"
  by (simp_all add: category_totals_def comp_def)

text \<open>
  Claim C1. For every result of the Aggregator, the values of the totals mapping add up
  to the total amount, whatever the signs and categories of the transactions.
\<close>

theorem totals_sum_to_total_amount:
  "sum_list (map snd (res_totals (Aggregator tag ts))) = res_total_amount (Aggregator tag ts)"
  by (simp add: Aggregator_def sum_values_category_totals)

lemma date_span_None: "date_span ts = None \<longleftrightarrow> ts = []"
  by (simp add: date_span_def)

lemma date_span_Some:
  assumes "date_span ts = Some (lo, hi)"
  shows "ts \<noteq> []" "lo \<le> hi" "lo \<in> date ` set ts" "hi \<in> date ` set ts"
    "\<forall>t \<in> set ts. lo \<le> date t \<and> date t \<le> hi"
proof -
  from assms show ne: "ts \<noteq> []"
    by (auto simp: date_span_def split: if_splits)
  with assms have lo: "lo = Min (date ` set ts)" and hi: "hi = Max (date ` set ts)"
    by (simp_all add: date_span_def)
  have fin: "finite (date ` set ts)" and nonempty: "date ` set ts \<noteq> {}"
    using ne by simp_all
  show "lo \<in> date ` set ts"
    unfolding lo using fin nonempty by (rule Min_in)
  show "hi \<in> date ` set ts"
    unfolding hi using fin nonempty by (rule Max_in)
  show bounds: "\<forall>t \<in> set ts. lo \<le> date t \<and> date t \<le> hi"
    unfolding lo hi using fin by (simp add: Min_le Max_ge)
  from ne obtain t where "t \<in> set ts"
    by (cases ts) auto
  with bounds have "lo \<le> date t" "date t \<le> hi"
    by blast+
  then show "lo \<le> hi"
    by (rule order_trans)
qed

text \<open>
  Claim C4. The date range of a result is absent exactly when its transaction list is
  empty; when it is present, its minimum is at most its maximum, both are dates of
  transactions, and every transaction's date lies between them.
\<close>

theorem date_range_absent_iff_empty:
  "(res_date_range (Aggregator tag ts) = None \<longleftrightarrow> res_transactions (Aggregator tag ts) = []) \<and>
   (\<forall>lo hi. res_date_range (Aggregator tag ts) = Some (lo, hi) \<longrightarrow>
      res_transactions (Aggregator tag ts) \<noteq> [] \<and> lo \<le> hi \<and>
      lo \<in> date ` set ts \<and> hi \<in> date ` set ts \<and>
      (\<forall>t \<in> set ts. lo \<le> date t \<and> date t \<le> hi))"
proof -
  have fields: "res_date_range (Aggregator tag ts) = date_span ts"
    "res_transactions (Aggregator tag ts) = ts"
    by (simp_all add: Aggregator_def)
  show ?thesis
    unfolding fields using date_span_None [of ts] date_span_Some [of ts]
    by blast
qed



text \<open>The model gives the figures the specification lists for its scenario.\<close>

lemma scenario_result:
  "res_transaction_count (Aggregator ''format_A'' scenario) = 3"
  "res_total_amount (Aggregator ''format_A'' scenario) = 1834.25"
  "map_of (res_totals (Aggregator ''format_A'' scenario)) ''Grocery'' = Some (-165.75)"
  "map_of (res_totals (Aggregator ''format_A'' scenario)) ''Salary'' = Some 2000"
  "res_date_range (Aggregator ''format_A'' scenario) = Some ((2024, 1, 5), (2024, 1, 15))"
  by (simp_all add: Aggregator_def scenario_def category_totals_def category_total_def date_span_def
       Min.set_eq_fold Max.set_eq_fold)

theorem totals_sum_to_total_amount_witness:
  "sum_list (map snd (res_totals (Aggregator ''format_A'' scenario))) = 1834.25 \<and>
   res_total_amount (Aggregator ''format_A'' scenario) = 1834.25"
  using totals_sum_to_total_amount [of "''format_A''" scenario] scenario_result(2)
  by simp

theorem date_range_absent_iff_empty_witness:
  "res_date_range (Aggregator ''format_A'' scenario) = Some ((2024, 1, 5), (2024, 1, 15)) \<and>
   ((2024, 1, 5) :: calendar_date) \<le> (2024, 1, 15) \<and>
   res_transactions (Aggregator ''format_A'' scenario) \<noteq> []"
  using date_range_absent_iff_empty [of "''format_A''" scenario] scenario_result(5)
  by blast

end
